theory Spec2Isabelle
  imports Main "HOL-Library.Sublist" "HOL-Library.AList"
begin

section \<open>Strings and truthiness\<close>

text \<open>
  \<^verbatim>\<open>String.prototype.indexOf(needle)\<close>: the index of the first occurrence of the
  needle, or \<open>-1\<close> when there is none.
\<close>

fun indexOf_from :: "string \<Rightarrow> string \<Rightarrow> nat \<Rightarrow> int" where
  "indexOf_from [] needle i = (if needle = [] then int i else - 1)"
| "indexOf_from (c # cs) needle i =
     (if prefix needle (c # cs) then int i else indexOf_from cs needle (Suc i))"

definition indexOf :: "string \<Rightarrow> string \<Rightarrow> int" where
  "indexOf s needle = indexOf_from s needle 0"

text \<open>\<^verbatim>\<open>s || ""\<close> for a string that may be undefined.\<close>

definition or_empty :: "string option \<Rightarrow> string" where
  "or_empty s = (case s of None \<Rightarrow> [] | Some v \<Rightarrow> (if v = [] then [] else v))"

text \<open>Truthiness of an optional string (undefined and the empty string are falsy).\<close>

definition truthy_str :: "string option \<Rightarrow> bool" where
  "truthy_str s = (case s of None \<Rightarrow> False | Some v \<Rightarrow> v \<noteq> [])"

text \<open>Truthiness of an optional number (undefined and 0 are falsy).\<close>

definition truthy_num :: "int option \<Rightarrow> bool" where
  "truthy_num n = (case n of None \<Rightarrow> False | Some v \<Rightarrow> v \<noteq> 0)"

section \<open>Records of the market\<close>

text \<open>The fields of \<^verbatim>\<open>IGameRecord\<close>, \<^verbatim>\<open>ICaveRecord\<close>, \<^verbatim>\<open>IUploadRecord\<close> and
  \<^verbatim>\<open>IDownloadKey\<close> that \<^verbatim>\<open>queue-game.ts\<close> reads.\<close>

record game_record =
  game_id :: int
  game_title :: string

record cave_record =
  cave_id :: string
  cave_game :: game_record

record upload_record =
  upload_id :: int
  filename :: "string option"
  displayName :: "string option"
  upload_size :: int

record download_key =
  dk_id :: int

section \<open>Platform sniffing (queue-game.ts, lines 112 to 144)\<close>

definition uploadContainsString :: "upload_record \<Rightarrow> string \<Rightarrow> bool" where
  "uploadContainsString upload needle =
     (indexOf (or_empty (filename upload)) needle \<noteq> - 1 \<or>
      indexOf (or_empty (displayName upload)) needle \<noteq> - 1)"

fun anyUploadContainsString :: "upload_record list \<Rightarrow> string \<Rightarrow> bool" where
  "anyUploadContainsString [] needle = False"
| "anyUploadContainsString (upload # candidates) needle =
     (if uploadContainsString upload needle then True
      else anyUploadContainsString candidates needle)"

text \<open>
  The host: \<^verbatim>\<open>process.platform\<close> and \<^verbatim>\<open>os.isWin64()\<close>.
\<close>

record host =
  platform :: string
  isWin64 :: bool

definition sniff_platforms :: "host \<Rightarrow> upload_record list \<Rightarrow> upload_record list" where
  "sniff_platforms h uploads =
     (if length uploads > 1 \<and> platform h = ''win32'' then
        (if isWin64 h then
           (if anyUploadContainsString uploads ''64''
            then filter (\<lambda>u. \<not> uploadContainsString u ''32'') uploads
            else uploads)
         else
           (if anyUploadContainsString uploads ''32''
            then filter (\<lambda>u. \<not> uploadContainsString u ''64'') uploads
            else uploads))
      else uploads)"

section \<open>Actions (constants/action-types.ts)\<close>

text \<open>
  \<^verbatim>\<open>IQueueGamePayload\<close>: the game, the picked upload and the extra options. The
  pick-upload buttons (queue-game.ts, lines 156 to 161) build a payload that
  also carries \<^verbatim>\<open>password\<close> and \<^verbatim>\<open>secret\<close> beside \<^verbatim>\<open>extraOpts\<close>; these are the
  last two fields. An absent field is \<open>None\<close>.
\<close>

record extra_opts =
  eo_password :: "string option"
  eo_secret :: "string option"

record queue_game_payload =
  pl_game :: game_record
  pl_pickedUpload :: "int option"
  pl_extraOpts :: "extra_opts option"
  pl_password :: "string option"
  pl_secret :: "string option"

text \<open>The error of a task: an object, with an optional \<^verbatim>\<open>reason\<close> and its
  rendering as a string.\<close>

datatype task_error = TaskError (reason: "string option") (err_text: string)

record find_upload_result =
  fr_uploads :: "upload_record list"
  fr_downloadKey :: "download_key option"

record queue_download_opts =
  qd_game :: game_record
  qd_upload :: upload_record
  qd_handPicked :: bool
  qd_totalSize :: int
  qd_destPath :: string
  qd_downloadKey :: "download_key option"
  qd_reason :: string
  qd_password :: "string option"
  qd_secret :: "string option"

text \<open>A localised message: its key and its named arguments.\<close>

datatype i18n_arg = ArgStr string | ArgErr task_error

type_synonym i18n = "string \<times> (string \<times> i18n_arg) list"

text \<open>What \<^verbatim>\<open>makeUploadButton\<close> returns: the properties of a button, by name.\<close>

type_synonym upload_button = "(string \<times> string) list"

datatype action =
    QueueGame queue_game_payload
  | QueueDownload queue_download_opts
  | OpenModal modal
  | QueueHistoryItem history_item
and modal =
    Modal (modal_title: i18n) (modal_message: i18n) (modal_detail: "i18n option")
      (bigButtons: "big_button list") (buttons: "button list")
and big_button =
    BigButton (bb_face: upload_button) (bb_action: action)
and button =
    NamedButton string
  | ActionButton (btn_label: i18n) (btn_icon: string) (btn_action: action)
and history_item =
    HistoryItem (hi_label: i18n) (hi_detail: string) (hi_options: "history_option list")
and history_option =
    HistoryOption (ho_label: i18n) (ho_action: action)

section \<open>Tasks, the store and the collaborators of the reactor\<close>

text \<open>
  The descriptor given to \<^verbatim>\<open>startTask\<close>: \<^verbatim>\<open>{name: "launch", gameId, cave, ...extraOpts}\<close>
  or \<^verbatim>\<open>{name: "find-upload", gameId, game, password, secret}\<close>.
\<close>

datatype task_opts =
    LaunchTask int cave_record extra_opts
  | FindUploadTask int game_record "string option" "string option"

text \<open>
  \<^verbatim>\<open>startTask\<close> resolves with \<^verbatim>\<open>{err, result}\<close>; the reactor reads \<^verbatim>\<open>result\<close> as an
  \<^verbatim>\<open>IFindUploadResult\<close> once \<^verbatim>\<open>err\<close> is falsy (the cast of line 107).
\<close>

record task_response =
  tr_err :: "task_error option"
  tr_result :: find_upload_result

record tab_data =
  tab_path :: "string option"

record query =
  query_secret :: "string option"
  query_password :: "string option"

text \<open>
  What the reactor reads from its surroundings: the store's state
  (\<^verbatim>\<open>globalMarket.cavesByGameId\<close>, \<^verbatim>\<open>session.navigation.tabData\<close> in key order),
  the host, and the functions it imports from modules that are not part of
  the sources at hand (\<^verbatim>\<open>startTask\<close>, \<^verbatim>\<open>pathmaker.downloadPath\<close>,
  \<^verbatim>\<open>makeUploadButton\<close>, and \<^verbatim>\<open>urlParser.parse\<close> followed by \<^verbatim>\<open>querystring.parse\<close>).
\<close>

record env =
  cavesByGameId :: "int \<Rightarrow> cave_record option"
  tabData :: "(string \<times> tab_data) list"
  the_host :: host
  startTask :: "task_opts \<Rightarrow> task_response"
  parseQuery :: "string \<Rightarrow> query"
  downloadPath :: "upload_record \<Rightarrow> string"
  makeUploadButton :: "upload_record \<Rightarrow> upload_button"

text \<open>What a reactor does, in order: tasks it starts and actions it dispatches.\<close>

datatype effect = StartTask task_opts | Dispatch action

fun dispatched :: "effect list \<Rightarrow> action list" where
  "dispatched [] = []"
| "dispatched (StartTask t # es) = dispatched es"
| "dispatched (Dispatch a # es) = a # dispatched es"

fun started :: "effect list \<Rightarrow> task_opts list" where
  "started [] = []"
| "started (StartTask t # es) = t # started es"
| "started (Dispatch a # es) = started es"

fun is_QueueDownload :: "action \<Rightarrow> bool" where
  "is_QueueDownload (QueueDownload opts) = True"
| "is_QueueDownload a = False"

fun is_OpenModal :: "action \<Rightarrow> bool" where
  "is_OpenModal (OpenModal m) = True"
| "is_OpenModal a = False"

fun is_FindUploadTask :: "task_opts \<Rightarrow> bool" where
  "is_FindUploadTask (FindUploadTask gid g p s) = True"
| "is_FindUploadTask t = False"

section \<open>The queueGame reactor (queue-game.ts)\<close>

text \<open>\<^verbatim>\<open>actions.queueGame({game})\<close>: a payload with the game only.\<close>

definition game_only :: "game_record \<Rightarrow> queue_game_payload" where
  "game_only game =
     \<lparr>pl_game = game, pl_pickedUpload = None, pl_extraOpts = None,
      pl_password = None, pl_secret = None\<rparr>"

text \<open>\<^verbatim>\<open>(err as any).reason || ("" + err)\<close>\<close>

definition err_detail :: "task_error \<Rightarrow> string" where
  "err_detail err = (if truthy_str (reason err) then or_empty (reason err) else err_text err)"

definition startCave :: "env \<Rightarrow> game_record \<Rightarrow> cave_record \<Rightarrow> extra_opts \<Rightarrow> effect list" where
  "startCave e game cave extraOpts =
     (let task = LaunchTask (game_id (cave_game cave)) cave extraOpts in
      StartTask task #
      (case tr_err (startTask e task) of
         None \<Rightarrow> []
       | Some err \<Rightarrow>
           [Dispatch (QueueHistoryItem (HistoryItem
              (''game.install.could_not_launch'', [(''title'', ArgStr (game_title game))])
              (err_detail err)
              [HistoryOption (''game.install.try_again'', []) (QueueGame (game_only game))]))]))"

text \<open>
  Line 68 writes the prefix between double quotes, so it is this literal text
  and not the interpolation of the game's id.
\<close>

definition pathStart :: string where
  "pathStart = ''games/${game.id}''"

text \<open>The loop over the tabs (lines 69 to 81), on the pair (password, secret).\<close>

fun scan_tabs ::
  "env \<Rightarrow> (string \<times> tab_data) list \<Rightarrow> string option \<times> string option \<Rightarrow> string option \<times> string option"
where
  "scan_tabs e [] creds = creds"
| "scan_tabs e ((tab, data) # rest) (password, secret) =
     (if truthy_str (tab_path data) \<and> indexOf (or_empty (tab_path data)) pathStart = 0 then
        (let q = parseQuery e (or_empty (tab_path data));
             secret' = (if truthy_str (query_secret q) then query_secret q else secret);
             password' = (if truthy_str (query_password q) then query_password q else password)
         in scan_tabs e rest (password', secret'))
      else scan_tabs e rest (password, secret))"

text \<open>\<^verbatim>\<open>const {game, extraOpts = {}, pickedUpload} = action.payload\<close>\<close>

definition extraOpts_of :: "queue_game_payload \<Rightarrow> extra_opts" where
  "extraOpts_of p =
     (case pl_extraOpts p of
        None \<Rightarrow> \<lparr>eo_password = None, eo_secret = None\<rparr>
      | Some x \<Rightarrow> x)"

definition credentials :: "env \<Rightarrow> queue_game_payload \<Rightarrow> string option \<times> string option" where
  "credentials e p =
     scan_tabs e (tabData e) (eo_password (extraOpts_of p), eo_secret (extraOpts_of p))"

text \<open>Lines 107 to 144: the filter on the picked upload (underscore's \<^verbatim>\<open>where\<close>),
  then platform sniffing.\<close>

definition resolve_uploads :: "host \<Rightarrow> int option \<Rightarrow> upload_record list \<Rightarrow> upload_record list" where
  "resolve_uploads h pickedUpload uploads =
     sniff_platforms h
       (if truthy_num pickedUpload
        then filter (\<lambda>u. Some (upload_id u) = pickedUpload) uploads
        else uploads)"

definition try_again_button :: "action \<Rightarrow> button" where
  "try_again_button a = ActionButton (''game.install.try_again'', []) ''repeat'' a"

definition find_upload_error_modal :: "task_error \<Rightarrow> action \<Rightarrow> modal" where
  "find_upload_error_modal err a =
     Modal (''prompt.install_error.title'', [])
       (''prompt.install_error.find_upload'', [(''message'', ArgErr err)])
       None [] [try_again_button a, NamedButton ''ok'']"

definition pick_upload_modal ::
  "env \<Rightarrow> queue_game_payload \<Rightarrow> string option \<Rightarrow> string option \<Rightarrow> upload_record list \<Rightarrow> modal"
where
  "pick_upload_modal e p password secret uploads =
     Modal (''pick_install_upload.title'', [(''title'', ArgStr (game_title (pl_game p)))])
       (''pick_install_upload.message'', [(''title'', ArgStr (game_title (pl_game p)))])
       (Some (''pick_install_upload.detail'', []))
       (map (\<lambda>upload. BigButton (makeUploadButton e upload)
               (QueueGame (p\<lparr>pl_pickedUpload := Some (upload_id upload),
                             pl_password := password, pl_secret := secret\<rparr>)))
          uploads)
       [NamedButton ''cancel'']"

definition no_uploads_modal :: "game_record \<Rightarrow> action \<Rightarrow> modal" where
  "no_uploads_modal game a =
     Modal (''game.install.no_uploads_available.message'', [(''title'', ArgStr (game_title game))])
       (''game.install.no_uploads_available.message'', [(''title'', ArgStr (game_title game))])
       (Some (''game.install.no_uploads_available.detail'', []))
       [] [try_again_button a, NamedButton ''ok'']"

definition download_opts ::
  "env \<Rightarrow> queue_game_payload \<Rightarrow> string option \<Rightarrow> string option \<Rightarrow> download_key option
     \<Rightarrow> upload_record \<Rightarrow> queue_download_opts"
where
  "download_opts e p password secret downloadKey upload =
     \<lparr>qd_game = pl_game p, qd_upload = upload,
      qd_handPicked = (pl_pickedUpload p \<noteq> None),
      qd_totalSize = upload_size upload,
      qd_destPath = downloadPath e upload,
      qd_downloadKey = downloadKey,
      qd_reason = ''install'',
      qd_password = password, qd_secret = secret\<rparr>"

text \<open>The descriptor of the find-upload task (lines 83 to 89).\<close>

definition find_upload_task :: "env \<Rightarrow> queue_game_payload \<Rightarrow> task_opts" where
  "find_upload_task e p =
     FindUploadTask (game_id (pl_game p)) (pl_game p)
       (fst (credentials e p)) (snd (credentials e p))"

text \<open>The reactor registered on \<^verbatim>\<open>queueGame\<close>; the action it receives is
  \<open>QueueGame p\<close>.\<close>

definition queueGame :: "env \<Rightarrow> queue_game_payload \<Rightarrow> effect list" where
  "queueGame e p =
     (case cavesByGameId e (game_id (pl_game p)) of
        Some cave \<Rightarrow> startCave e (pl_game p) cave (extraOpts_of p)
      | None \<Rightarrow>
          (let password = fst (credentials e p);
               secret = snd (credentials e p);
               task = find_upload_task e p;
               uploadResponse = startTask e task
           in StartTask task #
              (case tr_err uploadResponse of
                 Some err \<Rightarrow> [Dispatch (OpenModal (find_upload_error_modal err (QueueGame p)))]
               | None \<Rightarrow>
                   (let downloadKey = fr_downloadKey (tr_result uploadResponse);
                        uploads = resolve_uploads (the_host e) (pl_pickedUpload p)
                                    (fr_uploads (tr_result uploadResponse))
                    in if length uploads > 0 then
                         (if length uploads > 1 then
                            [Dispatch (OpenModal (pick_upload_modal e p password secret uploads))]
                          else
                            [Dispatch (QueueDownload
                               (download_opts e p password secret downloadKey (uploads ! 0)))])
                       else
                         [Dispatch (OpenModal (no_uploads_modal (pl_game p) (QueueGame p)))]))))"

text \<open>The value of \<^verbatim>\<open>uploads\<close> at line 146: what upload resolution yields for an
  install intent, after the filter on the picked upload and platform sniffing.\<close>

definition candidates :: "env \<Rightarrow> queue_game_payload \<Rightarrow> upload_record list" where
  "candidates e p =
     resolve_uploads (the_host e) (pl_pickedUpload p)
       (fr_uploads (tr_result (startTask e (find_upload_task e p))))"

section \<open>The API client (util/api.ts)\<close>

text \<open>The values of a JSON body; an object is the list of its properties, in
  insertion order.\<close>

datatype js_value =
    JUndefined
  | JNull
  | JBool bool
  | JNum int
  | JStr string
  | JArr "js_value list"
  | JObj "(string \<times> js_value) list"

type_synonym js_object = "(string \<times> js_value) list"

fun truthy :: "js_value \<Rightarrow> bool" where
  "truthy JUndefined = False"
| "truthy JNull = False"
| "truthy (JBool b) = b"
| "truthy (JNum n) = (n \<noteq> 0)"
| "truthy (JStr s) = (s \<noteq> [])"
| "truthy (JArr xs) = True"
| "truthy (JObj kvs) = True"

text \<open>\<^verbatim>\<open>obj[key]\<close>: undefined for a property the object does not have.\<close>

definition get_prop :: "js_object \<Rightarrow> string \<Rightarrow> js_value" where
  "get_prop obj key = (case map_of obj key of None \<Rightarrow> JUndefined | Some v \<Rightarrow> v)"

text \<open>\<^verbatim>\<open>v.length\<close>, for a value that is neither null nor undefined.\<close>

fun js_length :: "js_value \<Rightarrow> js_value" where
  "js_length (JArr xs) = JNum (int (length xs))"
| "js_length (JStr s) = JNum (int (length s))"
| "js_length (JObj kvs) = get_prop kvs ''length''"
| "js_length v = JUndefined"

definition ensureArray :: "js_value \<Rightarrow> js_value" where
  "ensureArray v = (if \<not> truthy v \<or> \<not> truthy (js_length v) then JArr [] else v)"

datatype api_error =
    NetError string
  | HttpError int string
  | ApiError js_value

record http_response =
  statusCode :: int
  body :: js_object

text \<open>
  The client's surroundings: its \<^verbatim>\<open>rootUrl\<close>, and \<^verbatim>\<open>net.request\<close> and
  \<^verbatim>\<open>camelifyObject\<close>, imported from modules that are not part of the sources at
  hand. A request that throws is \<open>Inl\<close>.
\<close>

record api_env =
  rootUrl :: string
  net_request :: "string \<Rightarrow> string \<Rightarrow> js_object \<Rightarrow> string + http_response"
  camelifyObject :: "js_object \<Rightarrow> js_object"

type_synonym transformers = "(string \<times> (js_value \<Rightarrow> js_value)) list"

text \<open>The loop of lines 94 to 99: each transformer rewrites its own property.\<close>

fun apply_transformers :: "transformers \<Rightarrow> js_object \<Rightarrow> js_object" where
  "apply_transformers [] camelBody = camelBody"
| "apply_transformers ((key, f) # ts) camelBody =
     apply_transformers ts (AList.update key (f (get_prop camelBody key)) camelBody)"

definition request ::
  "api_env \<Rightarrow> string \<Rightarrow> string \<Rightarrow> js_object \<Rightarrow> transformers \<Rightarrow> api_error + js_object"
where
  "request c method path data ts =
     (case net_request c method (rootUrl c @ path) data of
        Inl e \<Rightarrow> Inl (NetError e)
      | Inr resp \<Rightarrow>
          (if statusCode resp \<noteq> 200 then Inl (HttpError (statusCode resp) path)
           else if truthy (get_prop (body resp) ''errors'') then Inl (ApiError (get_prop (body resp) ''errors''))
           else Inr (apply_transformers ts (camelifyObject c (body resp)))))"

text \<open>A number in a template literal: its decimal digits.\<close>

function show_nat :: "nat \<Rightarrow> string" where
  "show_nat n =
     (if n < 10 then [''0123456789'' ! n]
      else show_nat (n div 10) @ [''0123456789'' ! (n mod 10)])"
  by pat_completeness auto
termination
  by (relation "measure id") auto

definition show_int :: "int \<Rightarrow> string" where
  "show_int i = (if i < 0 then CHR ''-'' # show_nat (nat (- i)) else show_nat (nat i))"

text \<open>\<^verbatim>\<open>AuthenticatedClient\<close>: a client and an API key.\<close>

record authenticated_client =
  ac_client :: api_env
  ac_key :: string

text \<open>\<^verbatim>\<open>AuthenticatedClient.request\<close> (lines 178 to 181): the path is prefixed with
  the key.\<close>

definition authenticated_request ::
  "authenticated_client \<Rightarrow> string \<Rightarrow> string \<Rightarrow> js_object \<Rightarrow> transformers
     \<Rightarrow> api_error + js_object"
where
  "authenticated_request a method path data ts =
     request (ac_client a) method (''/'' @ ac_key a @ path) data ts"

definition listUploads ::
  "authenticated_client \<Rightarrow> download_key option \<Rightarrow> int \<Rightarrow> js_object
     \<Rightarrow> api_error + js_object"
where
  "listUploads a downloadKey gameID extras =
     (case downloadKey of
        Some dk \<Rightarrow>
          authenticated_request a ''get''
            (''/download-key/'' @ show_int (dk_id dk) @ ''/uploads'') extras
            [(''uploads'', ensureArray)]
      | None \<Rightarrow>
          authenticated_request a ''get''
            (''/game/'' @ show_int gameID @ ''/uploads'') extras
            [(''uploads'', ensureArray)])"

text \<open>The path that \<^verbatim>\<open>listUploads\<close> gives to \<^verbatim>\<open>AuthenticatedClient.request\<close>: scoped
  by the download key when there is one, public otherwise.\<close>

definition uploads_path :: "download_key option \<Rightarrow> int \<Rightarrow> string" where
  "uploads_path downloadKey gameID =
     (case downloadKey of
        Some dk \<Rightarrow> ''/download-key/'' @ show_int (dk_id dk) @ ''/uploads''
      | None \<Rightarrow> ''/game/'' @ show_int gameID @ ''/uploads'')"

section \<open>Configuring an installed app bundle (configure)\<close>

text \<open>An error of the file system, with its \<^verbatim>\<open>code\<close> if it has one.\<close>

datatype sys_error = SysError (err_code: "string option")

datatype lstat_result = Stats (isSymbolicLink: bool) | LstatFails sys_error

text \<open>
  The file system as \<^verbatim>\<open>configure\<close> sees it: \<^verbatim>\<open>ospath.sep\<close> and \<^verbatim>\<open>ospath.join\<close>,
  \<^verbatim>\<open>sf.glob\<close> (by pattern and working directory), \<^verbatim>\<open>sf.lstat\<close>, and \<^verbatim>\<open>fixExecs\<close>
  (by field name and path).
\<close>

record fs_env =
  sep :: char
  path_join :: "string \<Rightarrow> string list \<Rightarrow> string"
  glob :: "string \<Rightarrow> string \<Rightarrow> sys_error + string list"
  lstat :: "string \<Rightarrow> lstat_result"
  fixExecs :: "string \<Rightarrow> string \<Rightarrow> sys_error + string list"

text \<open>\<^verbatim>\<open>res.split(ospath.sep)\<close>\<close>

fun split_on :: "char \<Rightarrow> string \<Rightarrow> string list" where
  "split_on c [] = [[]]"
| "split_on c (x # xs) =
     (if x = c then [] # split_on c xs
      else (case split_on c xs of
              [] \<Rightarrow> [[x]]
            | w # ws \<Rightarrow> (x # w) # ws))"

datatype scan_outcome = Keep | Skip | Throw sys_error

text \<open>
  The inner loop (lines 70 to 92) on the elements still to visit, given the
  elements visited so far. It returns what becomes of the candidate, and the
  paths it has given to \<^verbatim>\<open>sf.lstat\<close>, in order.
\<close>

fun scan_elements ::
  "fs_env \<Rightarrow> string \<Rightarrow> string list \<Rightarrow> string list \<Rightarrow> scan_outcome \<times> string list"
where
  "scan_elements fs cavePath currentElements [] = (Keep, [])"
| "scan_elements fs cavePath currentElements (element # rest) =
     (if element = ''__MACOSX'' then (Skip, [])
      else
        (let path = path_join fs cavePath (currentElements @ [element]) in
         case lstat fs path of
           Stats symlink \<Rightarrow>
             (if symlink then (Skip, [path])
              else (case scan_elements fs cavePath (currentElements @ [element]) rest of
                      (outcome, paths) \<Rightarrow> (outcome, path # paths)))
         | LstatFails e \<Rightarrow>
             (if err_code e = Some ''ENOENT'' \<or> err_code e = Some ''EPERM''
              then (Skip, [path])
              else (Throw e, [path]))))"

definition scan_candidate :: "fs_env \<Rightarrow> string \<Rightarrow> string \<Rightarrow> scan_outcome \<times> string list" where
  "scan_candidate fs cavePath res = scan_elements fs cavePath [] (split_on (sep fs) res)"

text \<open>The outer loop (lines 65 to 97) on the candidates still to visit, given the
  bundles found so far.\<close>

fun scan_bundles :: "fs_env \<Rightarrow> string \<Rightarrow> string list \<Rightarrow> string list \<Rightarrow> sys_error + string list" where
  "scan_bundles fs cavePath [] bundles = Inr bundles"
| "scan_bundles fs cavePath (res # globRes) bundles =
     (case fst (scan_candidate fs cavePath res) of
        Throw e \<Rightarrow> Inl e
      | Skip \<Rightarrow> scan_bundles fs cavePath globRes bundles
      | Keep \<Rightarrow> scan_bundles fs cavePath globRes (bundles @ [res @ ''/'']))"

text \<open>\<^verbatim>\<open>bluebird.each(bundles, fixer)\<close>: one bundle after the other, until one fails.\<close>

fun fix_each :: "fs_env \<Rightarrow> string \<Rightarrow> string list \<Rightarrow> sys_error option" where
  "fix_each fs cavePath [] = None"
| "fix_each fs cavePath (x # xs) =
     (case fixExecs fs ''macExecutable'' (path_join fs cavePath [x]) of
        Inl e \<Rightarrow> Some e
      | Inr done \<Rightarrow> fix_each fs cavePath xs)"

definition configure :: "fs_env \<Rightarrow> string \<Rightarrow> sys_error + string list" where
  "configure fs cavePath =
     (case glob fs ''**/*.app/'' cavePath of
        Inl e \<Rightarrow> Inl e
      | Inr globRes \<Rightarrow>
          (case scan_bundles fs cavePath globRes [] of
             Inl e \<Rightarrow> Inl e
           | Inr bundles \<Rightarrow>
               (if bundles \<noteq> [] then
                  (case fix_each fs cavePath bundles of
                     Some e \<Rightarrow> Inl e
                   | None \<Rightarrow> Inr bundles)
                else fixExecs fs ''macExecutable'' cavePath)))"

text \<open>The path of the element of index \<open>k\<close> of a candidate (line 77).\<close>

definition element_path :: "fs_env \<Rightarrow> string \<Rightarrow> string \<Rightarrow> nat \<Rightarrow> string" where
  "element_path fs cavePath res k =
     path_join fs cavePath (take (Suc k) (split_on (sep fs) res))"

section \<open>Concrete inputs\<close>

definition win64_host :: host where
  "win64_host = \<lparr>platform = ''win32'', isWin64 = True\<rparr>"

definition upload_win32 :: upload_record where
  "upload_win32 =
     \<lparr>upload_id = 11, filename = Some ''game-win32.zip'', displayName = Some ''Game (32-bit)'',
      upload_size = 100\<rparr>"

definition upload_win64 :: upload_record where
  "upload_win64 =
     \<lparr>upload_id = 12, filename = Some ''game-win64.zip'', displayName = None,
      upload_size = 120\<rparr>"

definition upload_v132 :: upload_record where
  "upload_v132 =
     \<lparr>upload_id = 13, filename = Some ''game-1.32-win64.zip'', displayName = None,
      upload_size = 130\<rparr>"

definition upload_both :: upload_record where
  "upload_both =
     \<lparr>upload_id = 14, filename = Some ''setup.exe'', displayName = Some ''Windows 32/64'',
      upload_size = 140\<rparr>"

definition game_a :: game_record where
  "game_a = \<lparr>game_id = 7, game_title = ''Overland''\<rparr>"

definition cave_a :: cave_record where
  "cave_a = \<lparr>cave_id = ''cave-7'', cave_game = game_a\<rparr>"

definition install_env :: "upload_record list \<Rightarrow> env" where
  "install_env uploads =
     \<lparr>cavesByGameId = (\<lambda>g. None),
      tabData = [],
      the_host = win64_host,
      startTask = (\<lambda>t. \<lparr>tr_err = None,
                           tr_result = \<lparr>fr_uploads = uploads, fr_downloadKey = None\<rparr>\<rparr>),
      parseQuery = (\<lambda>s. \<lparr>query_secret = None, query_password = None\<rparr>),
      downloadPath = (\<lambda>u. ''/downloads/'' @ or_empty (filename u)),
      makeUploadButton = (\<lambda>u. [(''label'', or_empty (filename u))])\<rparr>"

definition launch_env :: "task_error option \<Rightarrow> env" where
  "launch_env err =
     (install_env [])
       \<lparr>cavesByGameId := (\<lambda>g. if g = 7 then Some cave_a else None),
        startTask := (\<lambda>t. \<lparr>tr_err = err,
                            tr_result = \<lparr>fr_uploads = [], fr_downloadKey = None\<rparr>\<rparr>)\<rparr>"

definition install_a :: queue_game_payload where
  "install_a = game_only game_a"

definition install_protected :: queue_game_payload where
  "install_protected =
     (game_only game_a)\<lparr>pl_extraOpts := Some \<lparr>eo_password = Some ''hunter2'', eo_secret = None\<rparr>\<rparr>"

definition upload_a :: upload_record where
  "upload_a = \<lparr>upload_id = 21, filename = Some ''a.zip'', displayName = None, upload_size = 1\<rparr>"

definition upload_b :: upload_record where
  "upload_b = \<lparr>upload_id = 22, filename = Some ''b.zip'', displayName = None, upload_size = 2\<rparr>"

definition install_picked_0 :: queue_game_payload where
  "install_picked_0 = (game_only game_a)\<lparr>pl_pickedUpload := Some 0\<rparr>"

text \<open>An authenticated client with the key KEY, on a catalog that answers a GET
  of one URI with status 200 and a given body, and anything else with 404.\<close>

definition catalog_client :: "string \<Rightarrow> js_object \<Rightarrow> authenticated_client" where
  "catalog_client uri b =
     \<lparr>ac_client =
        \<lparr>rootUrl = ''https://itch.io/api/1'',
         net_request = (\<lambda>method u data.
            if method = ''get'' \<and> u = uri then Inr \<lparr>statusCode = 200, body = b\<rparr>
            else Inr \<lparr>statusCode = 404, body = []\<rparr>),
         camelifyObject = (\<lambda>obj. obj)\<rparr>,
      ac_key = ''KEY''\<rparr>"

text \<open>A file system with the results of the glob and the answers of \<^verbatim>\<open>sf.lstat\<close>
  as given; \<^verbatim>\<open>ospath.join\<close> joins the non-empty elements with the separator.\<close>

definition mac_fs :: "string list \<Rightarrow> (string \<Rightarrow> lstat_result) \<Rightarrow> fs_env" where
  "mac_fs found st =
     \<lparr>sep = CHR ''/'',
      path_join = (\<lambda>root elements.
         root @ concat (map (\<lambda>el. CHR ''/'' # el) (filter (\<lambda>el. el \<noteq> []) elements))),
      glob = (\<lambda>pattern cwd. Inr found),
      lstat = st,
      fixExecs = (\<lambda>field path. Inr [])\<rparr>"

text \<open>\<^verbatim>\<open>link\<close> is a symbolic link, \<^verbatim>\<open>gone\<close> has vanished, \<^verbatim>\<open>held\<close> may not be
  read.\<close>

definition lstat_mixed :: "string \<Rightarrow> lstat_result" where
  "lstat_mixed path =
     (if path = ''/cave/link'' then Stats True
      else if path = ''/cave/gone'' then LstatFails (SysError (Some ''ENOENT''))
      else if path = ''/cave/held'' then LstatFails (SysError (Some ''EPERM''))
      else Stats False)"

definition lstat_denied :: "string \<Rightarrow> lstat_result" where
  "lstat_denied path =
     (if path = ''/cave/link'' then LstatFails (SysError (Some ''EACCES'')) else Stats False)"

text \<open>\<^verbatim>\<open>locked\<close> cannot be examined, and \<^verbatim>\<open>locked/Other.app\<close> is a symbolic
  link.\<close>

definition lstat_locked :: "string \<Rightarrow> lstat_result" where
  "lstat_locked path =
     (if path = ''/cave/locked'' then LstatFails (SysError (Some ''EACCES''))
      else if path = ''/cave/locked/Other.app'' then Stats True
      else Stats False)"

section \<open>Facts about substring search\<close>

lemma indexOf_from_sublist: "indexOf_from s needle i \<noteq> - 1 \<longleftrightarrow> sublist needle s"
proof (induction s arbitrary: i)
  case Nil
  then show ?case by simp
next
  case (Cons c cs)
  show ?case
  proof (cases "prefix needle (c # cs)")
    case True
    then show ?thesis by (simp add: sublist_Cons_right)
  next
    case False
    then show ?thesis using Cons.IH [of "Suc i"] by (simp add: sublist_Cons_right)
  qed
qed

lemma indexOf_sublist: "indexOf s needle \<noteq> - 1 \<longleftrightarrow> sublist needle s"
  by (simp add: indexOf_def indexOf_from_sublist)

lemma or_empty_cases: "or_empty s = (case s of None \<Rightarrow> [] | Some v \<Rightarrow> v)"
  by (simp add: or_empty_def split: option.splits)

lemma uploadContainsString_sublist:
  "uploadContainsString u needle \<longleftrightarrow>
     sublist needle (case filename u of None \<Rightarrow> [] | Some v \<Rightarrow> v) \<or>
     sublist needle (case displayName u of None \<Rightarrow> [] | Some v \<Rightarrow> v)"
  by (simp add: uploadContainsString_def indexOf_sublist or_empty_cases)

lemma anyUploadContainsString_iff:
  "anyUploadContainsString us needle \<longleftrightarrow> (\<exists>u \<in> set us. uploadContainsString u needle)"
  by (induction us) auto


lemmas contains_eval = uploadContainsString_def indexOf_def or_empty_def

section \<open>Platform sniffing on a 64-bit Windows host\<close>

text \<open>
  Claim C1, as the code has it. On a 64-bit Windows host, for a list of more
  than one candidate of which at least one contains "64" in its filename or
  display name, sniffing keeps exactly the candidates that do not contain
  "32", in their order: every candidate containing "32" is excluded and every
  other candidate is retained.
\<close>

theorem sniff_win64_excludes_32:
  assumes "platform h = ''win32''" and "isWin64 h" and "1 < length uploads"
    and "\<exists>u \<in> set uploads. uploadContainsString u ''64''"
  shows "sniff_platforms h uploads = filter (\<lambda>u. \<not> uploadContainsString u ''32'') uploads
       \<and> (\<forall>u \<in> set (sniff_platforms h uploads). \<not> uploadContainsString u ''32'')
       \<and> (\<forall>u \<in> set uploads. \<not> uploadContainsString u ''32'' \<longrightarrow> u \<in> set (sniff_platforms h uploads))"
proof -
  have "sniff_platforms h uploads = filter (\<lambda>u. \<not> uploadContainsString u ''32'') uploads"
    using assms by (simp add: sniff_platforms_def anyUploadContainsString_iff)
  then show ?thesis by simp
qed

theorem sniff_win64_excludes_32_witness:
  "platform win64_host = ''win32'' \<and> isWin64 win64_host
   \<and> 1 < length [upload_win32, upload_win64]
   \<and> uploadContainsString upload_win64 ''64''
   \<and> sniff_platforms win64_host [upload_win32, upload_win64] = [upload_win64]"
proof -
  have h1: "platform win64_host = ''win32''" and h2: "isWin64 win64_host"
    by (simp_all add: win64_host_def)
  have h3: "1 < length [upload_win32, upload_win64]" by simp
  have c64: "uploadContainsString upload_win64 ''64''"
    by (simp add: upload_win64_def contains_eval)
  have c32: "uploadContainsString upload_win32 ''32''"
    by (simp add: upload_win32_def contains_eval)
  have n32: "\<not> uploadContainsString upload_win64 ''32''"
    by (simp add: upload_win64_def contains_eval)
  have h4: "\<exists>u \<in> set [upload_win32, upload_win64]. uploadContainsString u ''64''"
    using c64 by simp
  show ?thesis
    using sniff_win64_excludes_32 [OF h1 h2 h3 h4] h1 h2 c64 c32 n32 by simp
qed

text \<open>
  Claim C1 as stated fails for a single candidate: the guard of line 112
  leaves a list of one upload alone, also when its filename contains both
  "64" and "32".
\<close>

theorem sniff_single_keeps_32_counterexample:
  "platform win64_host = ''win32'' \<and> isWin64 win64_host
   \<and> uploadContainsString upload_v132 ''64''
   \<and> uploadContainsString upload_v132 ''32''
   \<and> upload_v132 \<in> set (sniff_platforms win64_host [upload_v132])"
  by (simp add: win64_host_def sniff_platforms_def upload_v132_def contains_eval)

text \<open>
  Claim C9, as the code has it. On a 64-bit Windows host, among more than one
  candidate, a candidate whose filename or display name contains both "32"
  and "64" makes the 64-bit rule apply (it is the rule checked on this host)
  and is itself dropped by it.
\<close>

theorem both_32_and_64_dropped:
  assumes "platform h = ''win32''" and "isWin64 h" and "1 < length uploads"
    and "u \<in> set uploads"
    and "uploadContainsString u ''32''" and "uploadContainsString u ''64''"
  shows "anyUploadContainsString uploads ''64''
       \<and> sniff_platforms h uploads = filter (\<lambda>u. \<not> uploadContainsString u ''32'') uploads
       \<and> u \<notin> set (sniff_platforms h uploads)"
proof -
  have any64: "anyUploadContainsString uploads ''64''"
    using assms(4,6) by (auto simp: anyUploadContainsString_iff)
  then have "sniff_platforms h uploads = filter (\<lambda>u. \<not> uploadContainsString u ''32'') uploads"
    using assms(1-3) by (simp add: sniff_platforms_def)
  with any64 assms(5) show ?thesis by simp
qed

theorem both_32_and_64_dropped_witness:
  "platform win64_host = ''win32'' \<and> isWin64 win64_host
   \<and> 1 < length [upload_both, upload_win64]
   \<and> uploadContainsString upload_both ''32'' \<and> uploadContainsString upload_both ''64''
   \<and> upload_both \<notin> set (sniff_platforms win64_host [upload_both, upload_win64])"
proof -
  have h1: "platform win64_host = ''win32''" and h2: "isWin64 win64_host"
    by (simp_all add: win64_host_def)
  have h3: "1 < length [upload_both, upload_win64]" by simp
  have h4: "upload_both \<in> set [upload_both, upload_win64]" by simp
  have h5: "uploadContainsString upload_both ''32''"
    by (simp add: upload_both_def contains_eval)
  have h6: "uploadContainsString upload_both ''64''"
    by (simp add: upload_both_def contains_eval)
  have r: "upload_both \<notin> set (sniff_platforms win64_host [upload_both, upload_win64])"
    using both_32_and_64_dropped [OF h1 h2 h3 h4 h5 h6] by blast
  show ?thesis
    using r h1 h2 h5 h6 by simp
qed

text \<open>
  Claim C9 as stated fails when that candidate is the only one: the guard of
  line 112 skips both rules and the candidate stays.
\<close>

theorem both_32_and_64_single_counterexample:
  "platform win64_host = ''win32'' \<and> isWin64 win64_host
   \<and> uploadContainsString upload_both ''32''
   \<and> uploadContainsString upload_both ''64''
   \<and> sniff_platforms win64_host [upload_both] = [upload_both]"
  by (simp add: win64_host_def sniff_platforms_def upload_both_def contains_eval)

lemmas env_eval =
  candidates_def find_upload_task_def credentials_def extraOpts_of_def
  resolve_uploads_def sniff_platforms_def truthy_num_def game_only_def

lemma queueGame_no_cave:
  assumes "cavesByGameId e (game_id (pl_game p)) = None"
    and "tr_err (startTask e (find_upload_task e p)) = None"
  shows "queueGame e p =
     StartTask (find_upload_task e p) #
       (if length (candidates e p) > 0 then
          (if length (candidates e p) > 1 then
             [Dispatch (OpenModal (pick_upload_modal e p (fst (credentials e p))
                 (snd (credentials e p)) (candidates e p)))]
           else
             [Dispatch (QueueDownload (download_opts e p (fst (credentials e p))
                 (snd (credentials e p))
                 (fr_downloadKey (tr_result (startTask e (find_upload_task e p))))
                 (candidates e p ! 0)))])
        else [Dispatch (OpenModal (no_uploads_modal (pl_game p) (QueueGame p)))])"
  using assms by (simp add: queueGame_def candidates_def Let_def)

section \<open>The outcomes of the queueGame reactor\<close>

text \<open>
  Claim C3. For every install intent (no cave for the game, the find-upload
  task succeeds) whose upload resolution yields zero candidates after the
  filter on the picked upload and platform sniffing, the reactor dispatches
  exactly one action: the "no uploads available" modal, whose first button is
  "try again" and re-dispatches the received action; it dispatches no
  queueDownload action.
\<close>

theorem zero_candidates_no_uploads_modal:
  assumes "cavesByGameId e (game_id (pl_game p)) = None"
    and "tr_err (startTask e (find_upload_task e p)) = None"
    and "candidates e p = []"
  shows "dispatched (queueGame e p) = [OpenModal (no_uploads_modal (pl_game p) (QueueGame p))]
       \<and> fst (modal_title (no_uploads_modal (pl_game p) (QueueGame p)))
           = ''game.install.no_uploads_available.message''
       \<and> buttons (no_uploads_modal (pl_game p) (QueueGame p))
           = [ActionButton (''game.install.try_again'', []) ''repeat'' (QueueGame p),
              NamedButton ''ok'']
       \<and> filter is_QueueDownload (dispatched (queueGame e p)) = []"
  using assms by (simp add: queueGame_no_cave no_uploads_modal_def try_again_button_def)

theorem zero_candidates_no_uploads_modal_witness:
  "cavesByGameId (install_env [upload_both, upload_v132]) (game_id (pl_game install_a)) = None
   \<and> tr_err (startTask (install_env [upload_both, upload_v132])
        (find_upload_task (install_env [upload_both, upload_v132]) install_a)) = None
   \<and> candidates (install_env [upload_both, upload_v132]) install_a = []
   \<and> dispatched (queueGame (install_env [upload_both, upload_v132]) install_a)
       = [OpenModal (no_uploads_modal game_a (QueueGame install_a))]"
proof -
  let ?e = "install_env [upload_both, upload_v132]"
  have h1: "cavesByGameId ?e (game_id (pl_game install_a)) = None"
    by (simp add: install_env_def)
  have h2: "tr_err (startTask ?e (find_upload_task ?e install_a)) = None"
    by (simp add: install_env_def)
  have h3: "candidates ?e install_a = []"
    by (simp add: install_env_def install_a_def env_eval win64_host_def
        upload_both_def upload_v132_def contains_eval)
  have g: "pl_game install_a = game_a"
    by (simp add: install_a_def game_only_def)
  show ?thesis
    using zero_candidates_no_uploads_modal [OF h1 h2 h3] h1 h2 h3 g by simp
qed

text \<open>
  Claim C4. For every install intent whose upload resolution yields exactly
  one candidate, the reactor dispatches exactly one action: queueDownload for
  that candidate, with the candidate's size as totalSize and the path computed
  by \<^verbatim>\<open>pathmaker.downloadPath\<close> as destPath; it dispatches no modal.
\<close>

theorem single_candidate_queues_download:
  assumes "cavesByGameId e (game_id (pl_game p)) = None"
    and "tr_err (startTask e (find_upload_task e p)) = None"
    and "candidates e p = [upload]"
  shows "\<exists>opts. dispatched (queueGame e p) = [QueueDownload opts]
         \<and> qd_game opts = pl_game p
         \<and> qd_upload opts = upload
         \<and> qd_totalSize opts = upload_size upload
         \<and> qd_destPath opts = downloadPath e upload
         \<and> qd_reason opts = ''install''
       \<and> filter is_OpenModal (dispatched (queueGame e p)) = []"
  using assms by (simp add: queueGame_no_cave download_opts_def)

theorem single_candidate_queues_download_witness:
  "cavesByGameId (install_env [upload_win32, upload_win64]) (game_id (pl_game install_a)) = None
   \<and> tr_err (startTask (install_env [upload_win32, upload_win64])
        (find_upload_task (install_env [upload_win32, upload_win64]) install_a)) = None
   \<and> candidates (install_env [upload_win32, upload_win64]) install_a = [upload_win64]
   \<and> (\<exists>opts. dispatched (queueGame (install_env [upload_win32, upload_win64]) install_a)
               = [QueueDownload opts]
             \<and> qd_upload opts = upload_win64
             \<and> qd_totalSize opts = 120
             \<and> qd_destPath opts = ''/downloads/game-win64.zip'')"
proof -
  let ?e = "install_env [upload_win32, upload_win64]"
  have h1: "cavesByGameId ?e (game_id (pl_game install_a)) = None"
    by (simp add: install_env_def)
  have h2: "tr_err (startTask ?e (find_upload_task ?e install_a)) = None"
    by (simp add: install_env_def)
  have h3: "candidates ?e install_a = [upload_win64]"
    by (simp add: install_env_def install_a_def env_eval win64_host_def
        upload_win32_def upload_win64_def contains_eval)
  have s: "upload_size upload_win64 = 120"
    and d: "downloadPath ?e upload_win64 = ''/downloads/game-win64.zip''"
    by (simp_all add: upload_win64_def install_env_def or_empty_def)
  from single_candidate_queues_download [OF h1 h2 h3] obtain opts where
    "dispatched (queueGame ?e install_a) = [QueueDownload opts]"
    "qd_upload opts = upload_win64" "qd_totalSize opts = upload_size upload_win64"
    "qd_destPath opts = downloadPath ?e upload_win64"
    by blast
  with s d have "\<exists>opts. dispatched (queueGame ?e install_a) = [QueueDownload opts]
             \<and> qd_upload opts = upload_win64
             \<and> qd_totalSize opts = 120
             \<and> qd_destPath opts = ''/downloads/game-win64.zip''"
    by simp
  with h1 h2 h3 show ?thesis by blast
qed

text \<open>
  Claim C5. For every install intent whose upload resolution yields more than
  one candidate, the reactor dispatches exactly one action: the pick-upload
  modal, with one big button per candidate, in order. The action of the button
  of a candidate is queueGame on the received payload with pickedUpload set to
  the candidate's id (the game and the extra options are the received ones;
  the resolved password and secret are added beside them). No queueDownload
  is dispatched.
\<close>

theorem many_candidates_pick_modal:
  assumes "cavesByGameId e (game_id (pl_game p)) = None"
    and "tr_err (startTask e (find_upload_task e p)) = None"
    and "1 < length (candidates e p)"
  shows "\<exists>m. dispatched (queueGame e p) = [OpenModal m]
         \<and> fst (modal_title m) = ''pick_install_upload.title''
         \<and> length (bigButtons m) = length (candidates e p)
         \<and> map bb_action (bigButtons m) =
             map (\<lambda>upload. QueueGame (p\<lparr>pl_pickedUpload := Some (upload_id upload),
                                         pl_password := fst (credentials e p),
                                         pl_secret := snd (credentials e p)\<rparr>))
               (candidates e p)
       \<and> filter is_QueueDownload (dispatched (queueGame e p)) = []"
proof -
  from assms(3) have pos: "0 < length (candidates e p)" by (cases "candidates e p") simp_all
  have "dispatched (queueGame e p) =
          [OpenModal (pick_upload_modal e p (fst (credentials e p)) (snd (credentials e p))
             (candidates e p))]"
    using assms pos by (simp add: queueGame_no_cave)
  then show ?thesis
    by (simp add: pick_upload_modal_def comp_def)
qed

theorem many_candidates_pick_modal_witness:
  "cavesByGameId (install_env [upload_a, upload_b]) (game_id (pl_game install_protected)) = None
   \<and> tr_err (startTask (install_env [upload_a, upload_b])
        (find_upload_task (install_env [upload_a, upload_b]) install_protected)) = None
   \<and> candidates (install_env [upload_a, upload_b]) install_protected = [upload_a, upload_b]
   \<and> (\<exists>m. dispatched (queueGame (install_env [upload_a, upload_b]) install_protected)
             = [OpenModal m]
          \<and> length (bigButtons m) = 2
          \<and> map bb_action (bigButtons m) =
              [QueueGame (install_protected\<lparr>pl_pickedUpload := Some 21,
                 pl_password := Some ''hunter2'', pl_secret := None\<rparr>),
               QueueGame (install_protected\<lparr>pl_pickedUpload := Some 22,
                 pl_password := Some ''hunter2'', pl_secret := None\<rparr>)])"
proof -
  let ?e = "install_env [upload_a, upload_b]"
  have h1: "cavesByGameId ?e (game_id (pl_game install_protected)) = None"
    by (simp add: install_env_def)
  have h2: "tr_err (startTask ?e (find_upload_task ?e install_protected)) = None"
    by (simp add: install_env_def)
  have c: "candidates ?e install_protected = [upload_a, upload_b]"
    by (simp add: install_env_def install_protected_def env_eval win64_host_def
        upload_a_def upload_b_def contains_eval)
  then have h3: "1 < length (candidates ?e install_protected)" by simp
  have cr: "credentials ?e install_protected = (Some ''hunter2'', None)"
    by (simp add: install_env_def install_protected_def credentials_def extraOpts_of_def)
  have ids: "upload_id upload_a = 21" "upload_id upload_b = 22"
    by (simp_all add: upload_a_def upload_b_def)
  from many_candidates_pick_modal [OF h1 h2 h3] obtain m where
    m: "dispatched (queueGame ?e install_protected) = [OpenModal m]"
    "length (bigButtons m) = length (candidates ?e install_protected)"
    "map bb_action (bigButtons m) =
       map (\<lambda>upload. QueueGame (install_protected\<lparr>pl_pickedUpload := Some (upload_id upload),
                                   pl_password := fst (credentials ?e install_protected),
                                   pl_secret := snd (credentials ?e install_protected)\<rparr>))
         (candidates ?e install_protected)"
    by blast
  have "\<exists>m. dispatched (queueGame ?e install_protected) = [OpenModal m]
          \<and> length (bigButtons m) = 2
          \<and> map bb_action (bigButtons m) =
              [QueueGame (install_protected\<lparr>pl_pickedUpload := Some 21,
                 pl_password := Some ''hunter2'', pl_secret := None\<rparr>),
               QueueGame (install_protected\<lparr>pl_pickedUpload := Some 22,
                 pl_password := Some ''hunter2'', pl_secret := None\<rparr>)]"
    using m by (simp add: c cr ids)
  with h1 h2 c show ?thesis by blast
qed

text \<open>
  Claim C6. For every install intent for a game that has a cave in the store's
  state, the reactor does what \<^verbatim>\<open>startCave\<close> does and nothing more: it starts the
  launch task for that cave, starts no find-upload task and dispatches no
  queueDownload.
\<close>

theorem existing_cave_launches:
  assumes "cavesByGameId e (game_id (pl_game p)) = Some cave"
  shows "queueGame e p = startCave e (pl_game p) cave (extraOpts_of p)
       \<and> started (queueGame e p) = [LaunchTask (game_id (cave_game cave)) cave (extraOpts_of p)]
       \<and> filter is_FindUploadTask (started (queueGame e p)) = []
       \<and> filter is_QueueDownload (dispatched (queueGame e p)) = []"
  using assms by (simp add: queueGame_def startCave_def Let_def split: option.splits)


theorem existing_cave_launches_witness:
  "cavesByGameId (launch_env None) (game_id (pl_game install_a)) = Some cave_a
   \<and> started (queueGame (launch_env None) install_a)
       = [LaunchTask 7 cave_a \<lparr>eo_password = None, eo_secret = None\<rparr>]
   \<and> filter is_FindUploadTask (started (queueGame (launch_env None) install_a)) = []
   \<and> filter is_QueueDownload (dispatched (queueGame (launch_env None) install_a)) = []"
proof -
  have h: "cavesByGameId (launch_env None) (game_id (pl_game install_a)) = Some cave_a"
    by (simp add: launch_env_def install_env_def install_a_def game_only_def game_a_def)
  have x: "extraOpts_of install_a = \<lparr>eo_password = None, eo_secret = None\<rparr>"
    by (simp add: extraOpts_of_def install_a_def game_only_def)
  have g: "game_id (cave_game cave_a) = 7"
    by (simp add: cave_a_def game_a_def)
  from existing_cave_launches [OF h] have
    r: "started (queueGame (launch_env None) install_a)
          = [LaunchTask (game_id (cave_game cave_a)) cave_a (extraOpts_of install_a)]"
       "filter is_FindUploadTask (started (queueGame (launch_env None) install_a)) = []"
       "filter is_QueueDownload (dispatched (queueGame (launch_env None) install_a)) = []"
    by blast+
  show ?thesis
    using r h by (simp add: x g)
qed

section \<open>What "try again" re-dispatches\<close>

text \<open>
  Claim C2 at a failing launch. The game has a cave, the intent carries extra
  options (a password), and the launch task fails. The history item's "try
  again" option dispatches queueGame with the game only: the extra options of
  the received action are gone, so it is not the received action.
\<close>

theorem launch_retry_drops_extra_opts:
  "cavesByGameId (launch_env (Some (TaskError None ''spawn ENOENT'')))
       (game_id (pl_game install_protected)) = Some cave_a
   \<and> dispatched (queueGame (launch_env (Some (TaskError None ''spawn ENOENT''))) install_protected)
     = [QueueHistoryItem (HistoryItem
          (''game.install.could_not_launch'', [(''title'', ArgStr ''Overland'')])
          ''spawn ENOENT''
          [HistoryOption (''game.install.try_again'', []) (QueueGame (game_only game_a))])]
   \<and> pl_extraOpts install_protected = Some \<lparr>eo_password = Some ''hunter2'', eo_secret = None\<rparr>
   \<and> pl_extraOpts (game_only game_a) = None
   \<and> QueueGame (game_only game_a) \<noteq> QueueGame install_protected"
  by (simp add: queueGame_def startCave_def launch_env_def install_env_def install_protected_def
      game_only_def game_a_def cave_a_def err_detail_def truthy_str_def)

text \<open>When the find-upload task fails, "try again" re-dispatches the received
  action.\<close>

lemma find_upload_error_retry_unchanged:
  assumes "cavesByGameId e (game_id (pl_game p)) = None"
    and "tr_err (startTask e (find_upload_task e p)) = Some err"
  shows "dispatched (queueGame e p) = [OpenModal (find_upload_error_modal err (QueueGame p))]
       \<and> buttons (find_upload_error_modal err (QueueGame p))
           = [ActionButton (''game.install.try_again'', []) ''repeat'' (QueueGame p),
              NamedButton ''ok'']"
  using assms
  by (simp add: queueGame_def Let_def find_upload_error_modal_def try_again_button_def)

text \<open>When the launch task fails, "try again" dispatches queueGame with the game
  only.\<close>

lemma launch_error_retry_game_only:
  assumes "cavesByGameId e (game_id (pl_game p)) = Some cave"
    and "tr_err (startTask e (LaunchTask (game_id (cave_game cave)) cave (extraOpts_of p))) = Some err"
  shows "dispatched (queueGame e p) =
     [QueueHistoryItem (HistoryItem
        (''game.install.could_not_launch'', [(''title'', ArgStr (game_title (pl_game p)))])
        (err_detail err)
        [HistoryOption (''game.install.try_again'', []) (QueueGame (game_only (pl_game p)))])]"
  using assms by (simp add: queueGame_def startCave_def Let_def)

section \<open>A picked upload that matches no upload\<close>

text \<open>
  Claim C10 at the picked upload 0. No upload has the id 0, yet the candidate
  set is not filtered to empty: the test of line 108 is on the truthiness of
  \<^verbatim>\<open>pickedUpload\<close>, and 0 is falsy. The only upload is queued for download, and
  it is marked as hand-picked (line 175 tests \<^verbatim>\<open>pickedUpload != null\<close>).
\<close>

theorem picked_zero_is_ignored:
  "pl_pickedUpload install_picked_0 = Some 0
   \<and> filter (\<lambda>u. Some (upload_id u) = pl_pickedUpload install_picked_0) [upload_win64] = []
   \<and> candidates (install_env [upload_win64]) install_picked_0 = [upload_win64]
   \<and> dispatched (queueGame (install_env [upload_win64]) install_picked_0)
     = [QueueDownload
          \<lparr>qd_game = game_a, qd_upload = upload_win64, qd_handPicked = True,
           qd_totalSize = 120, qd_destPath = ''/downloads/game-win64.zip'',
           qd_downloadKey = None, qd_reason = ''install'',
           qd_password = None, qd_secret = None\<rparr>]"
  by (simp add: queueGame_def install_env_def install_picked_0_def env_eval download_opts_def
      upload_win64_def or_empty_def)

text \<open>For a picked upload other than 0 that matches no upload, the candidate set
  is empty.\<close>

lemma stale_pick_filters_to_empty:
  assumes "pl_pickedUpload p = Some n" and "n \<noteq> 0"
    and "\<forall>u \<in> set (fr_uploads (tr_result (startTask e (find_upload_task e p)))). upload_id u \<noteq> n"
  shows "candidates e p = []"
  using assms
  by (simp add: candidates_def resolve_uploads_def truthy_num_def sniff_platforms_def
      filter_empty_conv)


section \<open>The uploads listing of the API client\<close>

lemma truthy_not_null: "truthy v \<Longrightarrow> v \<noteq> JNull \<and> v \<noteq> JUndefined"
  by (cases v) simp_all

lemma ensureArray_not_null: "ensureArray v \<noteq> JNull \<and> ensureArray v \<noteq> JUndefined"
  using truthy_not_null [of v] by (simp add: ensureArray_def)

lemma ensureArray_array: "ensureArray (JArr xs) = JArr xs"
  by (cases xs) (simp_all add: ensureArray_def)

lemma get_prop_update: "get_prop (AList.update k v obj) k = v"
  by (simp add: get_prop_def update_conv')

lemma listUploads_request:
  "listUploads a downloadKey gameID extras =
     request (ac_client a) ''get'' (''/'' @ ac_key a @ uploads_path downloadKey gameID) extras
       [(''uploads'', ensureArray)]"
  by (simp add: listUploads_def authenticated_request_def uploads_path_def split: option.splits)

lemma request_uploads:
  assumes "request c method path data [(''uploads'', ensureArray)] = Inr r"
  shows "\<exists>resp. net_request c method (rootUrl c @ path) data = Inr resp
           \<and> get_prop r ''uploads'' = ensureArray (get_prop (camelifyObject c (body resp)) ''uploads'')"
  using assms
  by (auto simp: request_def get_prop_update split: sum.splits if_splits)

text \<open>
  Whatever the catalog answers, the uploads listing that \<^verbatim>\<open>listUploads\<close> returns
  is neither null nor undefined: on both endpoints it is \<^verbatim>\<open>ensureArray\<close> of the
  uploads field of the camelified body.
\<close>

lemma listUploads_never_null:
  assumes "listUploads a downloadKey gameID extras = Inr r"
  shows "get_prop r ''uploads'' \<noteq> JNull \<and> get_prop r ''uploads'' \<noteq> JUndefined
       \<and> (\<exists>resp. net_request (ac_client a) ''get''
                    (rootUrl (ac_client a) @ ''/'' @ ac_key a @ uploads_path downloadKey gameID)
                    extras = Inr resp
             \<and> get_prop r ''uploads''
                 = ensureArray (get_prop (camelifyObject (ac_client a) (body resp)) ''uploads''))"
proof -
  from assms obtain resp where
    resp: "net_request (ac_client a) ''get''
             (rootUrl (ac_client a) @ ''/'' @ ac_key a @ uploads_path downloadKey gameID) extras
           = Inr resp"
      "get_prop r ''uploads''
         = ensureArray (get_prop (camelifyObject (ac_client a) (body resp)) ''uploads'')"
    using request_uploads [of "ac_client a" "''get''"
        "''/'' @ ac_key a @ uploads_path downloadKey gameID" extras r]
    by (auto simp: listUploads_request)
  show ?thesis
    using resp ensureArray_not_null [of "get_prop (camelifyObject (ac_client a) (body resp)) ''uploads''"]
    by auto
qed

text \<open>
  Claim C7 at an uploads field that is not an array, yet has a truthy
  \<^verbatim>\<open>length\<close>: a non-empty string on the public endpoint, an object with a
  \<^verbatim>\<open>length\<close> property on the endpoint scoped by a download key. The test of
  \<^verbatim>\<open>ensureArray\<close> is \<^verbatim>\<open>!v || !v.length\<close>, so both values pass through unchanged:
  the listing that \<^verbatim>\<open>listUploads\<close> returns is that string, or that object, and
  not the empty array that the comment above \<^verbatim>\<open>ensureArray\<close> ("if not an array,
  return the empty array, otherwise identity") announces.
\<close>

theorem listUploads_passes_non_array:
  "listUploads
     (catalog_client ''https://itch.io/api/1/KEY/game/7/uploads'' [(''uploads'', JStr ''abc'')])
     None 7 []
     = Inr [(''uploads'', JStr ''abc'')]
   \<and> listUploads
     (catalog_client ''https://itch.io/api/1/KEY/download-key/3/uploads''
        [(''uploads'', JObj [(''length'', JNum 2)])])
     (Some \<lparr>dk_id = 3\<rparr>) 7 []
     = Inr [(''uploads'', JObj [(''length'', JNum 2)])]
   \<and> JStr ''abc'' \<noteq> JArr []
   \<and> JObj [(''length'', JNum 2)] \<noteq> JArr []"
  by (simp add: listUploads_def authenticated_request_def catalog_client_def request_def
      get_prop_def ensureArray_def show_int_def)

section \<open>The scan of app bundles\<close>

lemma scan_elements_Cons:
  "scan_elements fs cavePath cur (element # rest) =
     (if element = ''__MACOSX'' then (Skip, [])
      else case lstat fs (path_join fs cavePath (cur @ [element])) of
        Stats symlink \<Rightarrow>
          if symlink then (Skip, [path_join fs cavePath (cur @ [element])])
          else (fst (scan_elements fs cavePath (cur @ [element]) rest),
                path_join fs cavePath (cur @ [element])
                  # snd (scan_elements fs cavePath (cur @ [element]) rest))
      | LstatFails e \<Rightarrow>
          if err_code e = Some ''ENOENT'' \<or> err_code e = Some ''EPERM''
          then (Skip, [path_join fs cavePath (cur @ [element])])
          else (Throw e, [path_join fs cavePath (cur @ [element])]))"
  by (simp add: Let_def split: prod.splits lstat_result.splits)

declare scan_elements.simps(2) [simp del]

text \<open>The first element that is a symbolic link, or on which \<^verbatim>\<open>sf.lstat\<close> fails
  with ENOENT or EPERM, skips the candidate, when \<^verbatim>\<open>sf.lstat\<close> fails with no
  other error on the elements before it.\<close>

lemma scan_elements_skip:
  assumes "k < length es"
    and "lstat fs (path_join fs cavePath (cur @ take (Suc k) es)) = Stats True
         \<or> (\<exists>e. lstat fs (path_join fs cavePath (cur @ take (Suc k) es)) = LstatFails e
                \<and> (err_code e = Some ''ENOENT'' \<or> err_code e = Some ''EPERM''))"
    and "\<forall>j<k. \<forall>e. lstat fs (path_join fs cavePath (cur @ take (Suc j) es)) = LstatFails e
            \<longrightarrow> err_code e = Some ''ENOENT'' \<or> err_code e = Some ''EPERM''"
  shows "fst (scan_elements fs cavePath cur es) = Skip"
  using assms
proof (induction es arbitrary: cur k)
  case Nil
  then show ?case by simp
next
  case (Cons element rest)
  let ?p = "path_join fs cavePath (cur @ [element])"
  show ?case
  proof (cases k)
    case 0
    with Cons.prems(2) show ?thesis
      by (auto simp: scan_elements_Cons split: lstat_result.splits)
  next
    case (Suc j)
    with Cons.prems(1) have j: "j < length rest" by simp
    from Cons.prems(3) Suc have first: "\<forall>e. lstat fs ?p = LstatFails e
            \<longrightarrow> err_code e = Some ''ENOENT'' \<or> err_code e = Some ''EPERM''"
      by (auto dest: spec [of _ 0])
    from Cons.prems(2) Suc have cause:
      "lstat fs (path_join fs cavePath ((cur @ [element]) @ take (Suc j) rest)) = Stats True
         \<or> (\<exists>e. lstat fs (path_join fs cavePath ((cur @ [element]) @ take (Suc j) rest)) = LstatFails e
                \<and> (err_code e = Some ''ENOENT'' \<or> err_code e = Some ''EPERM''))"
      by simp
    have earlier: "\<forall>i<j. \<forall>e. lstat fs (path_join fs cavePath ((cur @ [element]) @ take (Suc i) rest))
              = LstatFails e \<longrightarrow> err_code e = Some ''ENOENT'' \<or> err_code e = Some ''EPERM''"
    proof (intro allI impI)
      fix i e
      assume "i < j"
        and "lstat fs (path_join fs cavePath ((cur @ [element]) @ take (Suc i) rest)) = LstatFails e"
      with Cons.prems(3) [rule_format, of "Suc i" e] Suc
      show "err_code e = Some ''ENOENT'' \<or> err_code e = Some ''EPERM''"
        by simp
    qed
    from Cons.IH [OF j cause earlier] first show ?thesis
      by (auto simp: scan_elements_Cons split: lstat_result.splits)
  qed
qed

lemma scan_elements_throw:
  assumes "path \<in> set (snd (scan_elements fs cavePath cur es))"
    and "lstat fs path = LstatFails e"
    and "err_code e \<noteq> Some ''ENOENT''" and "err_code e \<noteq> Some ''EPERM''"
  shows "fst (scan_elements fs cavePath cur es) = Throw e"
  using assms
proof (induction es arbitrary: cur)
  case Nil
  then show ?case by simp
next
  case (Cons element rest)
  let ?p = "path_join fs cavePath (cur @ [element])"
  show ?case
  proof (cases "path = ?p")
    case True
    with Cons.prems show ?thesis
      by (auto simp: scan_elements_Cons split: if_splits)
  next
    case False
    with Cons.prems have in_rest: "path \<in> set (snd (scan_elements fs cavePath (cur @ [element]) rest))"
      and go_on: "element \<noteq> ''__MACOSX''" "lstat fs ?p = Stats False"
      by (auto simp: scan_elements_Cons split: if_splits lstat_result.splits)
    from Cons.IH [OF in_rest Cons.prems(2,3,4)] go_on show ?thesis
      by (simp add: scan_elements_Cons)
  qed
qed

lemma scan_bundles_Inr:
  "scan_bundles fs cavePath rs acc = Inr bs \<Longrightarrow>
     bs = acc @ map (\<lambda>r. r @ ''/'') (filter (\<lambda>r. fst (scan_candidate fs cavePath r) = Keep) rs)"
proof (induction rs arbitrary: acc)
  case Nil
  then show ?case by simp
next
  case (Cons r rs)
  show ?case
  proof (cases "fst (scan_candidate fs cavePath r)")
    case Keep
    with Cons.prems have "scan_bundles fs cavePath rs (acc @ [r @ ''/'']) = Inr bs" by simp
    from Cons.IH [OF this] Keep show ?thesis by simp
  next
    case Skip
    with Cons.prems have "scan_bundles fs cavePath rs acc = Inr bs" by simp
    from Cons.IH [OF this] Skip show ?thesis by simp
  next
    case (Throw e)
    with Cons.prems show ?thesis by simp
  qed
qed

lemma scan_bundles_throws:
  "r \<in> set rs \<Longrightarrow> fst (scan_candidate fs cavePath r) = Throw e \<Longrightarrow>
     \<exists>e'. scan_bundles fs cavePath rs acc = Inl e'"
proof (induction rs arbitrary: acc)
  case Nil
  then show ?case by simp
next
  case (Cons x rs)
  then show ?case
    by (cases "fst (scan_candidate fs cavePath x)") auto
qed

text \<open>
  Claim C8, as the code has it. Let a candidate be one of the results of the
  glob; the scan visits the elements of its path in order.
  \<^item> When an element of the path is a symbolic link, or is one on which
    \<^verbatim>\<open>sf.lstat\<close> fails with ENOENT or EPERM, and \<^verbatim>\<open>sf.lstat\<close> fails with no other
    error on the elements before it, the candidate is skipped: the scan goes
    on with the next candidates as if this one were not there, and the
    candidate is in no list of bundles that the scan returns, nor in the
    executables that \<^verbatim>\<open>configure\<close> returns from a non-empty list of bundles.
  \<^item> When \<^verbatim>\<open>sf.lstat\<close>, on a path the scan gives it for this candidate, fails
    with any error other than ENOENT and EPERM, the scan of the candidate
    throws that error and \<^verbatim>\<open>configure\<close> fails.
\<close>

theorem bundle_scan_skips_or_fails:
  assumes "glob fs ''**/*.app/'' cavePath = Inr globRes" and "res \<in> set globRes"
  shows "(\<forall>k < length (split_on (sep fs) res).
            (lstat fs (element_path fs cavePath res k) = Stats True
             \<or> (\<exists>e. lstat fs (element_path fs cavePath res k) = LstatFails e
                    \<and> (err_code e = Some ''ENOENT'' \<or> err_code e = Some ''EPERM'')))
            \<and> (\<forall>j<k. \<forall>e. lstat fs (element_path fs cavePath res j) = LstatFails e
                    \<longrightarrow> err_code e = Some ''ENOENT'' \<or> err_code e = Some ''EPERM'')
            \<longrightarrow> fst (scan_candidate fs cavePath res) = Skip
              \<and> (\<forall>rest bundles. scan_bundles fs cavePath (res # rest) bundles
                                  = scan_bundles fs cavePath rest bundles)
              \<and> (\<forall>bundles. scan_bundles fs cavePath globRes [] = Inr bundles \<longrightarrow>
                    res @ ''/'' \<notin> set bundles
                    \<and> (bundles \<noteq> [] \<longrightarrow>
                         (\<forall>execs. configure fs cavePath = Inr execs \<longrightarrow> execs = bundles))))
       \<and> (\<forall>path \<in> set (snd (scan_candidate fs cavePath res)).
            \<forall>e. lstat fs path = LstatFails e
                 \<and> err_code e \<noteq> Some ''ENOENT'' \<and> err_code e \<noteq> Some ''EPERM'' \<longrightarrow>
              fst (scan_candidate fs cavePath res) = Throw e
              \<and> (\<exists>e'. configure fs cavePath = Inl e'))"
proof (intro conjI ballI allI impI)
  fix k
  assume k: "k < length (split_on (sep fs) res)"
    and h: "(lstat fs (element_path fs cavePath res k) = Stats True
             \<or> (\<exists>e. lstat fs (element_path fs cavePath res k) = LstatFails e
                    \<and> (err_code e = Some ''ENOENT'' \<or> err_code e = Some ''EPERM'')))
            \<and> (\<forall>j<k. \<forall>e. lstat fs (element_path fs cavePath res j) = LstatFails e
                    \<longrightarrow> err_code e = Some ''ENOENT'' \<or> err_code e = Some ''EPERM'')"
  from scan_elements_skip [of k "split_on (sep fs) res" fs cavePath "[]"] k h
  show skip: "fst (scan_candidate fs cavePath res) = Skip"
    by (simp add: scan_candidate_def element_path_def)
  {
    fix rest bundles
    from skip show "scan_bundles fs cavePath (res # rest) bundles
                      = scan_bundles fs cavePath rest bundles"
      by simp
  }
  fix bundles
  assume b: "scan_bundles fs cavePath globRes [] = Inr bundles"
  from scan_bundles_Inr [OF b] skip show "res @ ''/'' \<notin> set bundles"
    by auto
  fix execs
  assume "bundles \<noteq> []" and "configure fs cavePath = Inr execs"
  with b assms(1) show "execs = bundles"
    by (auto simp: configure_def split: option.splits)
next
  fix path e
  assume p: "path \<in> set (snd (scan_candidate fs cavePath res))"
    and e: "lstat fs path = LstatFails e
            \<and> err_code e \<noteq> Some ''ENOENT'' \<and> err_code e \<noteq> Some ''EPERM''"
  then show t: "fst (scan_candidate fs cavePath res) = Throw e"
    using scan_elements_throw by (simp add: scan_candidate_def)
  from scan_bundles_throws [OF assms(2) t, of "[]"] obtain e' where
    "scan_bundles fs cavePath globRes [] = Inl e'" by blast
  with assms(1) show "\<exists>e'. configure fs cavePath = Inl e'"
    by (simp add: configure_def)
qed



theorem bundle_scan_skips_or_fails_witness:
  "glob (mac_fs [''Game.app/'', ''link/Other.app/'', ''gone/Old.app/'', ''held/Kept.app/''] lstat_mixed)
       ''**/*.app/'' ''/cave''
     = Inr [''Game.app/'', ''link/Other.app/'', ''gone/Old.app/'', ''held/Kept.app/'']
   \<and> lstat_mixed ''/cave/link'' = Stats True
   \<and> lstat_mixed ''/cave/gone'' = LstatFails (SysError (Some ''ENOENT''))
   \<and> lstat_mixed ''/cave/held'' = LstatFails (SysError (Some ''EPERM''))
   \<and> fst (scan_candidate
        (mac_fs [''Game.app/'', ''link/Other.app/'', ''gone/Old.app/'', ''held/Kept.app/''] lstat_mixed)
        ''/cave'' ''link/Other.app/'') = Skip
   \<and> fst (scan_candidate
        (mac_fs [''Game.app/'', ''link/Other.app/'', ''gone/Old.app/'', ''held/Kept.app/''] lstat_mixed)
        ''/cave'' ''gone/Old.app/'') = Skip
   \<and> fst (scan_candidate
        (mac_fs [''Game.app/'', ''link/Other.app/'', ''gone/Old.app/'', ''held/Kept.app/''] lstat_mixed)
        ''/cave'' ''held/Kept.app/'') = Skip
   \<and> configure
        (mac_fs [''Game.app/'', ''link/Other.app/'', ''gone/Old.app/'', ''held/Kept.app/''] lstat_mixed)
        ''/cave'' = Inr [''Game.app//'']
   \<and> lstat_denied ''/cave/link'' = LstatFails (SysError (Some ''EACCES''))
   \<and> fst (scan_candidate (mac_fs [''Game.app/'', ''link/Other.app/''] lstat_denied)
        ''/cave'' ''link/Other.app/'') = Throw (SysError (Some ''EACCES''))
   \<and> (\<exists>e. configure (mac_fs [''Game.app/'', ''link/Other.app/''] lstat_denied) ''/cave'' = Inl e)"
proof -
  let ?rs = "[''Game.app/'', ''link/Other.app/'', ''gone/Old.app/'', ''held/Kept.app/'']"
  let ?fs = "mac_fs ?rs lstat_mixed"
  let ?rd = "[''Game.app/'', ''link/Other.app/'']"
  let ?fd = "mac_fs ?rd lstat_denied"
  have g: "glob ?fs ''**/*.app/'' ''/cave'' = Inr ?rs"
    by (simp add: mac_fs_def)
  have gd: "glob ?fd ''**/*.app/'' ''/cave'' = Inr ?rd"
    by (simp add: mac_fs_def)
  have l1: "lstat_mixed ''/cave/link'' = Stats True"
    by (simp add: lstat_mixed_def)
  have l2: "lstat_mixed ''/cave/gone'' = LstatFails (SysError (Some ''ENOENT''))"
    by (simp add: lstat_mixed_def)
  have l3: "lstat_mixed ''/cave/held'' = LstatFails (SysError (Some ''EPERM''))"
    by (simp add: lstat_mixed_def)
  have ld: "lstat_denied ''/cave/link'' = LstatFails (SysError (Some ''EACCES''))"
    by (simp add: lstat_denied_def)
  have st: "lstat ?fs = lstat_mixed"
    by (simp add: mac_fs_def)
  have std: "lstat ?fd = lstat_denied"
    by (simp add: mac_fs_def)
  have ep1: "element_path ?fs ''/cave'' ''link/Other.app/'' 0 = ''/cave/link''"
    by (simp add: element_path_def mac_fs_def)
  have ep2: "element_path ?fs ''/cave'' ''gone/Old.app/'' 0 = ''/cave/gone''"
    by (simp add: element_path_def mac_fs_def)
  have ep3: "element_path ?fs ''/cave'' ''held/Kept.app/'' 0 = ''/cave/held''"
    by (simp add: element_path_def mac_fs_def)
  have n1: "0 < length (split_on (sep ?fs) ''link/Other.app/'')"
    by (simp add: mac_fs_def)
  have n2: "0 < length (split_on (sep ?fs) ''gone/Old.app/'')"
    by (simp add: mac_fs_def)
  have n3: "0 < length (split_on (sep ?fs) ''held/Kept.app/'')"
    by (simp add: mac_fs_def)
  have c1: "(lstat ?fs (element_path ?fs ''/cave'' ''link/Other.app/'' 0) = Stats True
             \<or> (\<exists>e. lstat ?fs (element_path ?fs ''/cave'' ''link/Other.app/'' 0) = LstatFails e
                    \<and> (err_code e = Some ''ENOENT'' \<or> err_code e = Some ''EPERM'')))
            \<and> (\<forall>j<0. \<forall>e. lstat ?fs (element_path ?fs ''/cave'' ''link/Other.app/'' j) = LstatFails e
                    \<longrightarrow> err_code e = Some ''ENOENT'' \<or> err_code e = Some ''EPERM'')"
    unfolding ep1 st l1 by simp
  have c2: "(lstat ?fs (element_path ?fs ''/cave'' ''gone/Old.app/'' 0) = Stats True
             \<or> (\<exists>e. lstat ?fs (element_path ?fs ''/cave'' ''gone/Old.app/'' 0) = LstatFails e
                    \<and> (err_code e = Some ''ENOENT'' \<or> err_code e = Some ''EPERM'')))
            \<and> (\<forall>j<0. \<forall>e. lstat ?fs (element_path ?fs ''/cave'' ''gone/Old.app/'' j) = LstatFails e
                    \<longrightarrow> err_code e = Some ''ENOENT'' \<or> err_code e = Some ''EPERM'')"
    unfolding ep2 st l2 by simp
  have c3: "(lstat ?fs (element_path ?fs ''/cave'' ''held/Kept.app/'' 0) = Stats True
             \<or> (\<exists>e. lstat ?fs (element_path ?fs ''/cave'' ''held/Kept.app/'' 0) = LstatFails e
                    \<and> (err_code e = Some ''ENOENT'' \<or> err_code e = Some ''EPERM'')))
            \<and> (\<forall>j<0. \<forall>e. lstat ?fs (element_path ?fs ''/cave'' ''held/Kept.app/'' j) = LstatFails e
                    \<longrightarrow> err_code e = Some ''ENOENT'' \<or> err_code e = Some ''EPERM'')"
    unfolding ep3 st l3 by simp
  have s1: "fst (scan_candidate ?fs ''/cave'' ''link/Other.app/'') = Skip"
    using bundle_scan_skips_or_fails [OF g, of "''link/Other.app/''",
        THEN conjunct1, rule_format, OF _ n1 c1]
    by simp
  have s2: "fst (scan_candidate ?fs ''/cave'' ''gone/Old.app/'') = Skip"
    using bundle_scan_skips_or_fails [OF g, of "''gone/Old.app/''",
        THEN conjunct1, rule_format, OF _ n2 c2]
    by simp
  have s3: "fst (scan_candidate ?fs ''/cave'' ''held/Kept.app/'') = Skip"
    using bundle_scan_skips_or_fails [OF g, of "''held/Kept.app/''",
        THEN conjunct1, rule_format, OF _ n3 c3]
    by simp
  have k: "fst (scan_candidate ?fs ''/cave'' ''Game.app/'') = Keep"
    by (simp add: scan_candidate_def scan_elements.simps mac_fs_def lstat_mixed_def Let_def)
  have b: "scan_bundles ?fs ''/cave'' ?rs [] = Inr [''Game.app//'']"
    by (simp add: s1 s2 s3 k)
  have f: "fix_each ?fs ''/cave'' [''Game.app//''] = None"
    by (simp add: mac_fs_def)
  have cf: "configure ?fs ''/cave'' = Inr [''Game.app//'']"
    by (simp add: configure_def g b f del: scan_bundles.simps fix_each.simps)
  have d1: "scan_candidate ?fd ''/cave'' ''link/Other.app/''
              = (Throw (SysError (Some ''EACCES'')), [''/cave/link''])"
    by (simp add: scan_candidate_def scan_elements.simps mac_fs_def lstat_denied_def Let_def)
  have d2: "fst (scan_candidate ?fd ''/cave'' ''link/Other.app/'') = Throw (SysError (Some ''EACCES''))"
    by (simp add: d1)
  have pd: "''/cave/link'' \<in> set (snd (scan_candidate ?fd ''/cave'' ''link/Other.app/''))"
    by (simp add: d1)
  have fail: "lstat ?fd ''/cave/link'' = LstatFails (SysError (Some ''EACCES''))
      \<and> err_code (SysError (Some ''EACCES'')) \<noteq> Some ''ENOENT''
      \<and> err_code (SysError (Some ''EACCES'')) \<noteq> Some ''EPERM''"
    unfolding std ld by simp
  have md: "''link/Other.app/'' \<in> set ?rd" by simp
  have r2: "\<exists>e. configure ?fd ''/cave'' = Inl e"
    using bundle_scan_skips_or_fails [OF gd md, THEN conjunct2, rule_format, OF pd fail]
    by (rule conjunct2)
  from g l1 l2 l3 s1 s2 s3 cf ld d2 r2 show ?thesis
    by (intro conjI)
qed

text \<open>
  Claim C8 as stated fails when \<^verbatim>\<open>sf.lstat\<close> fails with another error before the
  symbolic link is reached: the second element of the candidate is a symbolic
  link, but \<^verbatim>\<open>sf.lstat\<close> fails with EACCES on the first, so the candidate is not
  skipped and \<^verbatim>\<open>configure\<close> fails.
\<close>

theorem symlink_behind_denied_counterexample:
  "glob (mac_fs [''locked/Other.app/''] lstat_locked) ''**/*.app/'' ''/cave''
     = Inr [''locked/Other.app/'']
   \<and> element_path (mac_fs [''locked/Other.app/''] lstat_locked) ''/cave'' ''locked/Other.app/'' 1
     = ''/cave/locked/Other.app''
   \<and> lstat (mac_fs [''locked/Other.app/''] lstat_locked) ''/cave/locked/Other.app'' = Stats True
   \<and> fst (scan_candidate (mac_fs [''locked/Other.app/''] lstat_locked) ''/cave'' ''locked/Other.app/'')
     = Throw (SysError (Some ''EACCES''))
   \<and> configure (mac_fs [''locked/Other.app/''] lstat_locked) ''/cave''
     = Inl (SysError (Some ''EACCES''))"
proof -
  let ?fs = "mac_fs [''locked/Other.app/''] lstat_locked"
  have g: "glob ?fs ''**/*.app/'' ''/cave'' = Inr [''locked/Other.app/'']"
    by (simp add: mac_fs_def)
  have ep: "element_path ?fs ''/cave'' ''locked/Other.app/'' 1 = ''/cave/locked/Other.app''"
    by (simp add: element_path_def mac_fs_def)
  have l: "lstat ?fs ''/cave/locked/Other.app'' = Stats True"
    by (simp add: mac_fs_def lstat_locked_def)
  have c: "scan_candidate ?fs ''/cave'' ''locked/Other.app/''
             = (Throw (SysError (Some ''EACCES'')), [''/cave/locked''])"
    by (simp add: scan_candidate_def scan_elements.simps mac_fs_def lstat_locked_def Let_def)
  then have t: "fst (scan_candidate ?fs ''/cave'' ''locked/Other.app/'')
                  = Throw (SysError (Some ''EACCES''))"
    by simp
  have b: "scan_bundles ?fs ''/cave'' [''locked/Other.app/''] [] = Inl (SysError (Some ''EACCES''))"
    by (simp add: t)
  have cf: "configure ?fs ''/cave'' = Inl (SysError (Some ''EACCES''))"
    by (simp add: configure_def g b del: scan_bundles.simps)
  from g ep l t cf show ?thesis
    by (intro conjI)
qed

end
